theory Spec2Isabelle
  imports Main
begin

section \<open>Data model of the authentication controller\<close>

text \<open>
  The development embeds \<^verbatim>\<open>src/server/controllers/authController.js\<close>.
  Points in time are numbers of milliseconds, as \<^verbatim>\<open>Date.now()\<close> returns them.
\<close>

type_synonym timestamp = nat

text \<open>
  A user document. A field that is \<^verbatim>\<open>undefined\<close> on the JavaScript object is
  \<open>None\<close> here.
\<close>

record user =
  uid :: string
  name :: "string option"
  email :: "string option"
  role :: string
  password :: "string option"
  confirmPassword :: "string option"
  passwordChangedAt :: "timestamp option"
  passwordResetToken :: "string option"
  passwordResetExpires :: "timestamp option"

type_synonym db = "user list"

text \<open>The paths of a document that an assignment marks as modified.\<close>

datatype path =
  P_name | P_email | P_password | P_confirmPassword | P_passwordChangedAt
  | P_passwordResetToken | P_passwordResetExpires

text \<open>
  Errors: \<^verbatim>\<open>new AppError(message, statusCode)\<close>, the errors of the
  \<^verbatim>\<open>jsonwebtoken\<close> library, a validation failure of the store, and the
  \<^verbatim>\<open>TypeError\<close> of a property read on \<^verbatim>\<open>undefined\<close> or \<^verbatim>\<open>null\<close>.
\<close>

datatype jwt_error = JsonWebTokenError string | TokenExpiredError | NotBeforeError

datatype error =
  AppError string nat
  | JwtError jwt_error
  | ValidationError
  | TypeError

text \<open>
  What a handler does with the pipeline: it ends without calling \<^verbatim>\<open>next\<close>, it
  calls \<^verbatim>\<open>next()\<close>, it calls \<^verbatim>\<open>next(err)\<close>, or it throws (an \<^verbatim>\<open>async\<close>
  handler: its promise is rejected).
\<close>

datatype signal = NoNext | Next | NextErr error | Threw error

datatype json =
  JNull | JBool bool | JNum nat | JStr string | JObj "(string \<times> json) list"

record cookie =
  c_value :: string
  c_expires :: timestamp
  httpOnly :: bool
  secure :: bool
  sameSite :: string

text \<open>
  The response object: the \<^verbatim>\<open>Set-Cookie\<close> headers in the order of the
  \<^verbatim>\<open>res.cookie\<close> calls, the status code and the body given to \<^verbatim>\<open>res.json\<close>.
\<close>

record res =
  cookies :: "(string \<times> cookie) list"
  statusCode :: nat
  sent :: "json option"

definition res0 :: res where
  "res0 = \<lparr>cookies = [], statusCode = 200, sent = None\<rparr>"

definition res_cookie :: "string \<Rightarrow> cookie \<Rightarrow> res \<Rightarrow> res" where
  "res_cookie n c r = r\<lparr>cookies := cookies r @ [(n, c)]\<rparr>"

definition res_status :: "nat \<Rightarrow> res \<Rightarrow> res" where
  "res_status sc r = r\<lparr>statusCode := sc\<rparr>"

definition res_json :: "json \<Rightarrow> res \<Rightarrow> res" where
  "res_json j r = r\<lparr>sent := Some j\<rparr>"

text \<open>
  The request: \<^verbatim>\<open>req.body\<close>, \<^verbatim>\<open>req.params.token\<close>,
  \<^verbatim>\<open>req.headers.authorization\<close>, \<^verbatim>\<open>req.cookies.jwt\<close>, \<^verbatim>\<open>req.user\<close>,
  \<^verbatim>\<open>req.protocol\<close> and \<^verbatim>\<open>req.get("host")\<close>.
\<close>

record req =
  body :: "string \<Rightarrow> string option"
  params_token :: string
  authorization :: "string option"
  cookie_jwt :: "string option"
  req_user :: "user option"
  protocol :: string
  host :: string

record mail =
  mail_to :: "string option"
  subject :: string
  message :: string

text \<open>
  The libraries and the configuration the controller is linked against are parameters:
  \<^verbatim>\<open>jwt.sign\<close> and \<^verbatim>\<open>jwt.verify\<close> with the secret and the lifetime of the
  environment, the SHA-256 digest in hexadecimal, the password hash of the store and its
  comparison (\<^verbatim>\<open>user.correctPassword\<close>), the validators of the user schema,
  \<^verbatim>\<open>sendEmail\<close> (\<open>False\<close> when it throws) and \<^verbatim>\<open>JWT_COOKIE_EXPIRES_IN\<close>.
\<close>

record env =
  jwt_sign :: "string \<Rightarrow> timestamp \<Rightarrow> string"
  jwt_verify :: "string \<Rightarrow> timestamp \<Rightarrow> jwt_error + (string \<times> timestamp)"
  sha256 :: "string \<Rightarrow> string"
  hashPassword :: "string \<Rightarrow> string"
  correctPassword :: "string option \<Rightarrow> string option \<Rightarrow> bool"
  validate :: "user \<Rightarrow> bool"
  sendEmail :: "mail \<Rightarrow> bool"
  JWT_COOKIE_EXPIRES_IN :: nat

section \<open>Serialisation of a user\<close>

text \<open>
  \<^verbatim>\<open>res.json\<close> serialises with \<^verbatim>\<open>JSON.stringify\<close>: a property whose value is
  \<^verbatim>\<open>undefined\<close> is left out of the object.
\<close>

fun opt_field :: "string \<Rightarrow> string option \<Rightarrow> (string \<times> json) list" where
  "opt_field k None = []"
| "opt_field k (Some v) = [(k, JStr v)]"

fun opt_time :: "string \<Rightarrow> timestamp option \<Rightarrow> (string \<times> json) list" where
  "opt_time k None = []"
| "opt_time k (Some t) = [(k, JNum t)]"

definition user_fields :: "user \<Rightarrow> (string \<times> json) list" where
  "user_fields u =
     [(''_id'', JStr (uid u))]
     @ opt_field ''name'' (name u)
     @ opt_field ''email'' (email u)
     @ [(''role'', JStr (role u))]
     @ opt_field ''password'' (password u)
     @ opt_field ''confirmPassword'' (confirmPassword u)
     @ opt_time ''passwordChangedAt'' (passwordChangedAt u)
     @ opt_field ''passwordResetToken'' (passwordResetToken u)
     @ opt_time ''passwordResetExpires'' (passwordResetExpires u)"

definition user_json :: "user \<Rightarrow> json" where
  "user_json u = JObj (user_fields u)"

text \<open>Every property name of a JSON value, at any depth.\<close>

fun json_keys :: "json \<Rightarrow> string list" where
  "json_keys (JObj kvs) = concat (map (\<lambda>kv. fst kv # json_keys (snd kv)) kvs)"
| "json_keys j = []"

definition no_password_in_body :: "res \<Rightarrow> bool" where
  "no_password_in_body r =
     (case sent r of None \<Rightarrow> True | Some j \<Rightarrow> ''password'' \<notin> set (json_keys j))"

section \<open>The credential store\<close>

text \<open>
  The user model (\<^verbatim>\<open>models/userModel.js\<close>) is not among the sources. The store
  is the list of the stored documents; a query returns the first match, and a document
  that a query returns is a copy: assignments to it reach the store with \<^verbatim>\<open>save\<close>.
\<close>

definition deselect :: "user \<Rightarrow> user" where
  \<comment> \<open>Modelled from the spec: the schema of the user model is missing; the hashed secret
      field is "normally excluded from reads", and a query includes it only with
      \<^verbatim>\<open>.select("+password")\<close>, as \<open>login\<close> and \<open>updatePassword\<close> ask for.\<close>
  "deselect u = u\<lparr>password := None\<rparr>"

definition defaultRole :: string where
  \<comment> \<open>Modelled from the spec: the schema of the user model is missing; the role has the
      "default \<^verbatim>\<open>user\<close>".\<close>
  "defaultRole = ''user''"

definition findOne_email :: "db \<Rightarrow> string option \<Rightarrow> user option" where
  "findOne_email db e = map_option deselect (find (\<lambda>u. email u = e) db)"

definition findOne_email_select_password :: "db \<Rightarrow> string option \<Rightarrow> user option" where
  "findOne_email_select_password db e = find (\<lambda>u. email u = e) db"

definition findById :: "db \<Rightarrow> string \<Rightarrow> user option" where
  "findById db i = map_option deselect (find (\<lambda>u. uid u = i) db)"

definition findById_select_password :: "db \<Rightarrow> string \<Rightarrow> user option" where
  "findById_select_password db i = find (\<lambda>u. uid u = i) db"

definition reset_match :: "string \<Rightarrow> timestamp \<Rightarrow> user \<Rightarrow> bool" where
  "reset_match h now u =
     (passwordResetToken u = Some h
      \<and> (case passwordResetExpires u of None \<Rightarrow> False | Some e \<Rightarrow> now < e))"

definition findOne_reset :: "db \<Rightarrow> string \<Rightarrow> timestamp \<Rightarrow> user option" where
  "findOne_reset db h now = map_option deselect (find (reset_match h now) db)"

text \<open>
  \<^verbatim>\<open>doc.save(options)\<close>: the validators run unless \<^verbatim>\<open>validateBeforeSave\<close> is
  \<^verbatim>\<open>false\<close>, and a failed validation throws and writes nothing; then the save hooks
  run, and the paths that were assigned since the document was read (\<open>ps\<close>) are written
  over the stored document of the same \<^verbatim>\<open>_id\<close>. The other paths of the stored
  document stay, the password of a document that was read without it among them.
\<close>

fun write_path :: "user \<Rightarrow> path \<Rightarrow> user \<Rightarrow> user" where
  "write_path src P_name dst = dst\<lparr>name := name src\<rparr>"
| "write_path src P_email dst = dst\<lparr>email := email src\<rparr>"
| "write_path src P_password dst = dst\<lparr>password := password src\<rparr>"
| "write_path src P_confirmPassword dst = dst\<lparr>confirmPassword := confirmPassword src\<rparr>"
| "write_path src P_passwordChangedAt dst = dst\<lparr>passwordChangedAt := passwordChangedAt src\<rparr>"
| "write_path src P_passwordResetToken dst = dst\<lparr>passwordResetToken := passwordResetToken src\<rparr>"
| "write_path src P_passwordResetExpires dst =
     dst\<lparr>passwordResetExpires := passwordResetExpires src\<rparr>"

definition write_paths :: "path list \<Rightarrow> user \<Rightarrow> user \<Rightarrow> user" where
  "write_paths ps src dst = fold (write_path src) ps dst"

definition preSave :: "env \<Rightarrow> timestamp \<Rightarrow> bool \<Rightarrow> path list \<Rightarrow> user \<Rightarrow> user \<times> path list" where
  \<comment> \<open>Modelled from the spec: the save hooks of the user model are missing. A new password
      is "hashed by the Credential Store on save", the secret is "never stored or
      transmitted in clear" (so the confirmation is dropped), and \<open>passwordChangedAt\<close> is
      the "timestamp of last password mutation; absent for brand-new accounts".\<close>
  "preSave env now isNew ps doc =
     (if P_password \<in> set ps
      then (doc\<lparr>password := map_option (hashPassword env) (password doc),
                confirmPassword := None,
                passwordChangedAt := (if isNew then passwordChangedAt doc else Some now)\<rparr>,
            ps @ [P_confirmPassword, P_passwordChangedAt])
      else (doc, ps))"

definition save :: "env \<Rightarrow> timestamp \<Rightarrow> bool \<Rightarrow> path list \<Rightarrow> user \<Rightarrow> db \<Rightarrow> error + (user \<times> db)" where
  "save env now validateBeforeSave ps doc db =
     (if validateBeforeSave \<and> \<not> validate env doc then Inl ValidationError
      else (case preSave env now False ps doc of
              (doc', ps') \<Rightarrow>
                Inr (doc', map (\<lambda>v. if uid v = uid doc then write_paths ps' doc' v else v) db)))"

text \<open>
  \<^verbatim>\<open>User.create(fields)\<close> with the four properties of the object literal of
  \<open>signup\<close>: the other paths take the defaults of the schema, the validators and the
  save hooks run, and the new document is added to the store.
\<close>

definition User_create ::
  "env \<Rightarrow> timestamp \<Rightarrow> string \<Rightarrow> db \<Rightarrow> string option \<Rightarrow> string option \<Rightarrow> string option
     \<Rightarrow> string option \<Rightarrow> error + (user \<times> db)" where
  "User_create env now oid db nm em pw cpw =
     (let doc = \<lparr>uid = oid, name = nm, email = em, role = defaultRole, password = pw,
                 confirmPassword = cpw, passwordChangedAt = None,
                 passwordResetToken = None, passwordResetExpires = None\<rparr>
      in if \<not> validate env doc then Inl ValidationError
         else (case preSave env now True [P_name, P_email, P_password, P_confirmPassword] doc of
                 (doc', ps') \<Rightarrow> Inr (doc', db @ [doc'])))"

definition changedPasswordAfter :: "user \<Rightarrow> timestamp \<Rightarrow> bool" where
  \<comment> \<open>Modelled from the spec: the method of the user model is missing. The freshness
      check fails "if \<open>passwordChangedAt\<close> exists and is later than the token's issued-at
      time"; both are read as points in time on one scale.\<close>
  "changedPasswordAfter u iat =
     (case passwordChangedAt u of None \<Rightarrow> False | Some t \<Rightarrow> iat < t)"

definition passwordResetToken_method :: "env \<Rightarrow> timestamp \<Rightarrow> string \<Rightarrow> user \<Rightarrow> string \<times> user" where
  \<comment> \<open>Modelled from the spec: the method \<^verbatim>\<open>user.passwordResetToken()\<close> of the user model
      is missing. \<open>generateResetSecret\<close> gives the raw secret (random: the argument
      \<open>raw\<close>), its hashed form and the expiry "now + fixed window (source uses 10
      minutes)"; the controller uses the returned value as the raw token.\<close>
  "passwordResetToken_method env now raw u =
     (raw, u\<lparr>passwordResetToken := Some (sha256 env raw),
             passwordResetExpires := Some (now + 10 * 60 * 1000)\<rparr>)"

section \<open>Issuing the session token\<close>

definition signToken :: "env \<Rightarrow> string \<Rightarrow> timestamp \<Rightarrow> string" where
  "signToken env i now = jwt_sign env i now"

definition createSendToken :: "env \<Rightarrow> timestamp \<Rightarrow> user \<Rightarrow> nat \<Rightarrow> res \<Rightarrow> res" where
  "createSendToken env now usr sc r =
     (let token = signToken env (uid usr) now;
          r1 = res_cookie ''jwt''
                 \<lparr>c_value = token,
                  c_expires = now + JWT_COOKIE_EXPIRES_IN env * 24 * 60 * 60 * 1000,
                  httpOnly = True, secure = False, sameSite = ''Lax''\<rparr> r;
          usr' = usr\<lparr>password := None\<rparr>
      in res_json (JObj [(''status'', JStr ''success''),
                         (''token'', JStr token),
                         (''data'', JObj [(''user'', user_json usr')])])
           (res_status sc r1))"

section \<open>The handlers\<close>

text \<open>
  What a handler leaves behind: the response object, what it did with the pipeline, and
  the store. Every \<^verbatim>\<open>Date.now()\<close> of one request reads the same \<open>now\<close>.
\<close>

record outcome =
  response :: res
  flow :: signal
  store :: db

text \<open>\<^verbatim>\<open>!v\<close> on a value that is a string or \<^verbatim>\<open>undefined\<close>.\<close>

definition falsy :: "string option \<Rightarrow> bool" where
  "falsy v = (v = None \<or> v = Some [])"

text \<open>\<open>oid\<close> is the identifier the store gives to the new document.\<close>

definition signup :: "env \<Rightarrow> timestamp \<Rightarrow> string \<Rightarrow> db \<Rightarrow> req \<Rightarrow> res \<Rightarrow> outcome" where
  "signup env now oid db rq r =
     (case User_create env now oid db
             (body rq ''name'') (body rq ''email'')
             (body rq ''password'') (body rq ''confirmPassword'') of
        Inl e \<Rightarrow> \<lparr>response = r, flow = Threw e, store = db\<rparr>
      | Inr (newUser, db') \<Rightarrow>
          \<lparr>response = createSendToken env now newUser 201 r, flow = Next, store = db'\<rparr>)"

definition login :: "env \<Rightarrow> timestamp \<Rightarrow> db \<Rightarrow> req \<Rightarrow> res \<Rightarrow> outcome" where
  "login env now db rq r =
     (let email' = body rq ''email''; password' = body rq ''password''
      in if falsy email' \<or> falsy password'
         then \<lparr>response = r,
               flow = NextErr (AppError ''Please provide email and password!'' 400),
               store = db\<rparr>
         else (case findOne_email_select_password db email' of
                 None \<Rightarrow>
                   \<lparr>response = r,
                    flow = NextErr (AppError ''Incorrect email or password!'' 401),
                    store = db\<rparr>
               | Some usr \<Rightarrow>
                   if \<not> correctPassword env password' (password usr)
                   then \<lparr>response = r,
                         flow = NextErr (AppError ''Incorrect email or password!'' 401),
                         store = db\<rparr>
                   else \<lparr>response = createSendToken env now usr 200 r, flow = NoNext,
                         store = db\<rparr>))"

definition getCurrentUser :: "req \<Rightarrow> res \<Rightarrow> res" where
  "getCurrentUser rq r =
     res_json (JObj [(''status'', JStr ''success''),
                     (''data'', JObj (case req_user rq of
                                        None \<Rightarrow> []
                                      | Some u \<Rightarrow> [(''user'', user_json u)]))])
       (res_status 200 r)"

definition logout :: "timestamp \<Rightarrow> req \<Rightarrow> res \<Rightarrow> res" where
  "logout now rq r =
     res_json (JObj [(''status'', JStr ''success'')])
       (res_status 200
          (res_cookie ''jwt''
             \<lparr>c_value = ''loggedout'', c_expires = now + 10 * 1000,
              httpOnly = True, secure = False, sameSite = ''Lax''\<rparr> r))"

text \<open>
  The client side of \<^verbatim>\<open>Set-Cookie\<close>: a cookie replaces the stored cookie of the
  same name. \<open>logout_calls\<close> is a client that sends logout requests one after the other,
  each answered on a new response object.
\<close>

type_synonym jar = "string \<Rightarrow> cookie option"

definition receive :: "jar \<Rightarrow> res \<Rightarrow> jar" where
  "receive j r = fold (\<lambda>nc j'. j'(fst nc \<mapsto> snd nc)) (cookies r) j"

definition logout_calls :: "(timestamp \<times> req) list \<Rightarrow> jar \<Rightarrow> jar" where
  "logout_calls calls j = fold (\<lambda>c j'. receive j' (logout (fst c) (snd c) res0)) calls j"

subsection \<open>Session middleware\<close>

text \<open>\<^verbatim>\<open>s.split(" ")\<close>: the pieces between single spaces, empty pieces included.\<close>

fun split_sp :: "string \<Rightarrow> string list" where
  "split_sp [] = [[]]"
| "split_sp (c # cs) =
     (if c = CHR '' '' then [] # split_sp cs
      else (case split_sp cs of [] \<Rightarrow> [[c]] | w # ws \<Rightarrow> (c # w) # ws))"

definition startsWith :: "string \<Rightarrow> string \<Rightarrow> bool" where
  "startsWith s p = (take (length p) s = p)"

text \<open>\<^verbatim>\<open>xs[i]\<close>, which is \<^verbatim>\<open>undefined\<close> out of range.\<close>

definition at_index :: "'a list \<Rightarrow> nat \<Rightarrow> 'a option" where
  "at_index xs i = (if i < length xs then Some (xs ! i) else None)"

text \<open>A value that is tested with \<^verbatim>\<open>if (v)\<close> before it is used.\<close>

definition truthy :: "string option \<Rightarrow> string option" where
  "truthy v = (if falsy v then None else v)"

definition extract_token :: "req \<Rightarrow> string option" where
  "extract_token rq =
     (case truthy (authorization rq) of
        Some a \<Rightarrow>
          if startsWith a ''Bearer'' then at_index (split_sp a) 1
          else truthy (cookie_jwt rq)
      | None \<Rightarrow> truthy (cookie_jwt rq))"

definition protect :: "env \<Rightarrow> timestamp \<Rightarrow> db \<Rightarrow> req \<Rightarrow> signal \<times> req" where
  "protect env now db rq =
     (case truthy (extract_token rq) of
        None \<Rightarrow>
          (NextErr (AppError ''You are not logged in! Please log in to your account.'' 401),
           rq)
      | Some token \<Rightarrow>
          (case jwt_verify env token now of
             Inl e \<Rightarrow> (Threw (JwtError e), rq)
           | Inr (decoded_id, decoded_iat) \<Rightarrow>
               (case findById db decoded_id of
                  None \<Rightarrow>
                    (NextErr (AppError
                       ''The user belonging to this token no longer exists!'' 401), rq)
                | Some freshUser \<Rightarrow>
                    if changedPasswordAfter freshUser decoded_iat
                    then (NextErr (AppError
                            ''User recently changed his password! Please log in again.''
                            401), rq)
                    else (Next, rq\<lparr>req_user := Some freshUser\<rparr>))))"

subsection \<open>Role gate\<close>

text \<open>
  \<^verbatim>\<open>restrictTo(...roles)\<close>: the error is constructed when the role is not among
  \<open>roles\<close>, and is neither returned nor given to \<^verbatim>\<open>next\<close>; \<^verbatim>\<open>next()\<close> is
  called on both branches.
\<close>

definition restrictTo :: "string list \<Rightarrow> req \<Rightarrow> signal" where
  "restrictTo roles rq =
     (case req_user rq of
        None \<Rightarrow> Threw TypeError
      | Some u \<Rightarrow>
          (let discarded =
                 (if role u \<notin> set roles
                  then Some (AppError ''You do not have persmission to perform this action!'' 403)
                  else None)
           in Next))"

subsection \<open>Password reset and change\<close>

definition forgotPassword_mail :: "req \<Rightarrow> user \<Rightarrow> string \<Rightarrow> mail" where
  "forgotPassword_mail rq usr resetToken =
     (let resetURL = protocol rq @ ''://'' @ host rq @ ''/api/v1/users/resetPassword/''
                     @ resetToken;
          msg = ''Forgot your password? Submit a PATCH request with your new password and passwordConfirm to: ''
                @ resetURL @ ''.'' @ [CHR 0x0A]
                @ '' If you didn't forget your password, please ignore this email!''
      in \<lparr>mail_to = email usr,
          subject = ''Your password reset token (valid for 10 minutes)'',
          message = msg\<rparr>)"

text \<open>\<open>raw\<close> is the random secret that the reset-token method draws.\<close>

definition forgotPassword :: "env \<Rightarrow> timestamp \<Rightarrow> string \<Rightarrow> db \<Rightarrow> req \<Rightarrow> res \<Rightarrow> outcome" where
  "forgotPassword env now raw db rq r =
     (case findOne_email db (body rq ''email'') of
        None \<Rightarrow>
          \<lparr>response = r,
           flow = NextErr (AppError ''There is no user with this email address!'' 404),
           store = db\<rparr>
      | Some usr0 \<Rightarrow>
          (case passwordResetToken_method env now raw usr0 of
             (resetToken, usr) \<Rightarrow>
               if sendEmail env (forgotPassword_mail rq usr resetToken)
               then \<lparr>response = res_json (JObj [(''status'', JStr ''success''),
                                                 (''message'', JStr ''Token sent to email!'')])
                                   (res_status 200 r),
                     flow = Next, store = db\<rparr>
               else (let usr' = usr\<lparr>passwordResetToken := None, passwordResetExpires := None\<rparr>
                     in case save env now False [P_passwordResetToken, P_passwordResetExpires]
                               usr' db of
                          Inl e \<Rightarrow> \<lparr>response = r, flow = Threw e, store = db\<rparr>
                        | Inr (saved, db') \<Rightarrow>
                            \<lparr>response = r,
                             flow = NextErr (AppError
                               ''There was an error sending the email. Try again later!'' 500),
                             store = db'\<rparr>)))"

text \<open>The assignments of \<open>resetPassword\<close> to the document, before \<^verbatim>\<open>user.save()\<close>.\<close>

definition resetPassword_assign :: "req \<Rightarrow> user \<Rightarrow> user" where
  "resetPassword_assign rq usr =
     usr\<lparr>password := body rq ''password'',
         confirmPassword := body rq ''confirmPassword'',
         passwordResetToken := None,
         passwordResetExpires := None\<rparr>"

definition resetPassword :: "env \<Rightarrow> timestamp \<Rightarrow> db \<Rightarrow> req \<Rightarrow> res \<Rightarrow> outcome" where
  "resetPassword env now db rq r =
     (let hashedToken = sha256 env (params_token rq)
      in case findOne_reset db hashedToken now of
           None \<Rightarrow>
             \<lparr>response = r,
              flow = NextErr (AppError ''Token is invalid or has expired!'' 400),
              store = db\<rparr>
         | Some usr \<Rightarrow>
             (case save env now True
                     [P_password, P_confirmPassword, P_passwordResetToken,
                      P_passwordResetExpires]
                     (resetPassword_assign rq usr) db of
                Inl e \<Rightarrow> \<lparr>response = r, flow = Threw e, store = db\<rparr>
              | Inr (saved, db') \<Rightarrow>
                  \<lparr>response = createSendToken env now saved 201 r, flow = Next,
                   store = db'\<rparr>))"

text \<open>The assignments of \<open>updatePassword\<close> to the document, before \<^verbatim>\<open>user.save()\<close>.\<close>

definition updatePassword_assign :: "req \<Rightarrow> timestamp \<Rightarrow> user \<Rightarrow> user" where
  "updatePassword_assign rq now usr =
     usr\<lparr>password := body rq ''password'',
         confirmPassword := body rq ''passwordConfirm'',
         passwordChangedAt := Some now\<rparr>"

definition updatePassword :: "env \<Rightarrow> timestamp \<Rightarrow> db \<Rightarrow> req \<Rightarrow> res \<Rightarrow> outcome" where
  "updatePassword env now db rq r =
     (case req_user rq of
        None \<Rightarrow> \<lparr>response = r, flow = Threw TypeError, store = db\<rparr>
      | Some ru \<Rightarrow>
          (case findById_select_password db (uid ru) of
             None \<Rightarrow> \<lparr>response = r, flow = Threw TypeError, store = db\<rparr>
           | Some usr \<Rightarrow>
               if \<not> correctPassword env (body rq ''passwordCurrent'') (password usr)
               then \<lparr>response = r,
                     flow = NextErr (AppError ''Your current password is wrong!'' 401),
                     store = db\<rparr>
               else (case save env now True
                            [P_password, P_confirmPassword, P_passwordChangedAt]
                            (updatePassword_assign rq now usr) db of
                       Inl e \<Rightarrow> \<lparr>response = r, flow = Threw e, store = db\<rparr>
                     | Inr (saved, db') \<Rightarrow>
                         \<lparr>response = createSendToken env now saved 201 r, flow = Next,
                          store = db'\<rparr>)))"

text \<open>
  A hashed reset token identifies at most one account: the raw secret is random and of
  high entropy, so two accounts do not hold the same one.
\<close>

definition unique_reset_token :: "db \<Rightarrow> string \<Rightarrow> bool" where
  "unique_reset_token db h =
     (\<forall>v\<in>set db. \<forall>w\<in>set db.
        passwordResetToken v = Some h \<and> passwordResetToken w = Some h \<longrightarrow> uid v = uid w)"

section \<open>Concrete inputs\<close>

definition env0 :: env where
  "env0 =
     \<lparr>jwt_sign = (\<lambda>i t. ''jwt.'' @ i),
      jwt_verify = (\<lambda>tok t. if tok = ''good'' then Inr (''u1'', 100)
                              else Inl (JsonWebTokenError ''jwt malformed'')),
      sha256 = (\<lambda>s. ''#'' @ s),
      hashPassword = (\<lambda>s. ''$'' @ s),
      correctPassword = (\<lambda>c h. case c of None \<Rightarrow> False | Some c' \<Rightarrow> h = Some (''$'' @ c')),
      validate = (\<lambda>u. password u \<noteq> None \<and> confirmPassword u = password u),
      sendEmail = (\<lambda>m. False),
      JWT_COOKIE_EXPIRES_IN = 90\<rparr>"

definition user0 :: user where
  "user0 = \<lparr>uid = ''u1'', name = Some ''Ann'', email = Some ''a@x.com'', role = ''user'',
            password = Some ''$right'', confirmPassword = None, passwordChangedAt = None,
            passwordResetToken = None, passwordResetExpires = None\<rparr>"

definition req0 :: req where
  "req0 = \<lparr>body = (\<lambda>k. None), params_token = [], authorization = None, cookie_jwt = None,
           req_user = None, protocol = ''http'', host = ''localhost''\<rparr>"

definition db_reset :: db where
  "db_reset = [user0\<lparr>passwordResetToken := Some ''#old'', passwordResetExpires := Some 5000\<rparr>]"

definition req_reset :: req where
  "req_reset = req0\<lparr>params_token := ''old'',
                    body := [''password'' \<mapsto> ''new'', ''confirmPassword'' \<mapsto> ''new'']\<rparr>"

definition req_forgot :: req where
  "req_forgot = req0\<lparr>body := [''email'' \<mapsto> ''a@x.com'']\<rparr>"

definition req_signup :: req where
  "req_signup = req0\<lparr>body := [''name'' \<mapsto> ''Bob'', ''email'' \<mapsto> ''b@x.com'',
                              ''password'' \<mapsto> ''pw'', ''confirmPassword'' \<mapsto> ''pw'']\<rparr>"

definition req_update :: req where
  "req_update = req0\<lparr>req_user := Some (deselect user0),
                     body := [''passwordCurrent'' \<mapsto> ''right'', ''password'' \<mapsto> ''new'',
                              ''confirmPassword'' \<mapsto> ''new'']\<rparr>"

definition req_signup_other :: req where
  "req_signup_other = req0\<lparr>body := [''name'' \<mapsto> ''Bob'', ''email'' \<mapsto> ''b@x.com'',
                                    ''password'' \<mapsto> ''pw'', ''passwordConfirm'' \<mapsto> ''pw'']\<rparr>"

section \<open>Properties\<close>

lemmas eval_defs =
  env0_def user0_def req0_def res0_def truthy_def falsy_def extract_token_def startsWith_def
  at_index_def findById_def findById_select_password_def findOne_email_def
  findOne_email_select_password_def findOne_reset_def reset_match_def deselect_def

lemma restrictTo_always_next: "restrictTo roles (rq\<lparr>req_user := Some u\<rparr>) = Next"
  by (simp add: restrictTo_def)

text \<open>
  C1. The claim: a request of an authenticated user whose role is not in the allowed set
  is stopped by \<open>restrictTo\<close> with a 403 error and does not reach the next handler.
  The code at roles \<open>[admin]\<close> and a user of role \<open>user\<close>: the role is not in the
  allowed set, and the gate calls \<^verbatim>\<open>next()\<close> with no error.
\<close>

theorem restrictTo_not_enforcing:
  "role user0 \<notin> set [''admin''] \<and>
   restrictTo [''admin''] (req0\<lparr>req_user := Some user0\<rparr>) = Next \<and>
   restrictTo [''admin''] (req0\<lparr>req_user := Some user0\<rparr>)
     \<noteq> NextErr (AppError ''You do not have persmission to perform this action!'' 403)"
  by (simp add: restrictTo_def user0_def req0_def)

subsection \<open>Serialised users\<close>

lemma keys_opt_field:
  "(\<exists>x\<in>set (opt_field k v). k' = fst x \<or> k' \<in> set (json_keys (snd x)))
     \<longleftrightarrow> (k' = k \<and> v \<noteq> None)"
  by (cases v) auto

lemma keys_opt_time:
  "(\<exists>x\<in>set (opt_time k v). k' = fst x \<or> k' \<in> set (json_keys (snd x)))
     \<longleftrightarrow> (k' = k \<and> v \<noteq> None)"
  by (cases v) auto

lemma password_key_user_json:
  "''password'' \<in> set (json_keys (user_json u)) \<longleftrightarrow> password u \<noteq> None"
  by (simp add: user_json_def user_fields_def keys_opt_field keys_opt_time)

lemma createSendToken_no_password: "no_password_in_body (createSendToken env now usr sc r)"
  by (simp add: no_password_in_body_def createSendToken_def res_json_def res_status_def
      res_cookie_def Let_def password_key_user_json)

lemma res0_no_password: "no_password_in_body res0"
  by (simp add: no_password_in_body_def res0_def)

lemma signup_no_password: "no_password_in_body (response (signup env now oid db rq res0))"
  by (simp add: signup_def createSendToken_no_password res0_no_password split: sum.split prod.split)

lemma login_no_password: "no_password_in_body (response (login env now db rq res0))"
  by (simp add: login_def Let_def createSendToken_no_password res0_no_password split: option.split)

lemma resetPassword_no_password:
  "no_password_in_body (response (resetPassword env now db rq res0))"
  by (simp add: resetPassword_def Let_def createSendToken_no_password res0_no_password
      split: option.split sum.split prod.split)

lemma updatePassword_no_password:
  "no_password_in_body (response (updatePassword env now db rq res0))"
  by (simp add: updatePassword_def Let_def createSendToken_no_password res0_no_password
      split: option.split sum.split prod.split)

lemma findById_deselected: "findById db i = Some u \<Longrightarrow> password u = None"
  by (auto simp: findById_def deselect_def)

lemma protect_user_deselected:
  "req_user rq = None \<Longrightarrow> req_user (snd (protect env now db rq)) = Some u \<Longrightarrow> password u = None"
  by (auto simp: protect_def dest: findById_deselected split: option.splits sum.splits prod.splits if_splits)

lemma getCurrentUser_no_password:
  "no_password_in_body (getCurrentUser (snd (protect env now db (rq\<lparr>req_user := None\<rparr>))) r)"
proof (cases "req_user (snd (protect env now db (rq\<lparr>req_user := None\<rparr>)))")
  case None
  then show ?thesis
    by (simp add: getCurrentUser_def no_password_in_body_def res_json_def res_status_def)
next
  case (Some u)
  then have "password u = None"
    using protect_user_deselected [of "rq\<lparr>req_user := None\<rparr>" env now db u] by simp
  with Some show ?thesis
    by (simp add: getCurrentUser_def no_password_in_body_def res_json_def res_status_def
        password_key_user_json)
qed

text \<open>
  C3. In each flow that returns a user (signup, login, resetPassword, updatePassword, and
  getCurrentUser behind \<open>protect\<close>), the body of the response has no property
  \<^verbatim>\<open>password\<close>, at any depth. The response object is a new one (\<open>res0\<close>), and the
  request that enters \<open>protect\<close> has no user attached yet.
\<close>

theorem password_never_serialised:
  "no_password_in_body (response (signup env now oid db rq res0))
   \<and> no_password_in_body (response (login env now db rq res0))
   \<and> no_password_in_body (response (resetPassword env now db rq res0))
   \<and> no_password_in_body (response (updatePassword env now db rq res0))
   \<and> no_password_in_body
         (getCurrentUser (snd (protect env now db (rq\<lparr>req_user := None\<rparr>))) res0)"
  by (simp only: signup_no_password login_no_password resetPassword_no_password
      updatePassword_no_password getCurrentUser_no_password simp_thms)

lemma login_response_example:
  "sent (response (login env0 1000 [user0]
           (req0\<lparr>body := [''email'' \<mapsto> ''a@x.com'', ''password'' \<mapsto> ''right'']\<rparr>) res0)) =
     Some (JObj [(''status'', JStr ''success''), (''token'', JStr ''jwt.u1''),
                 (''data'', JObj [(''user'',
                    JObj [(''_id'', JStr ''u1''), (''name'', JStr ''Ann''),
                          (''email'', JStr ''a@x.com''), (''role'', JStr ''user'')])])])"
  by (simp add: login_def createSendToken_def signToken_def res_json_def res_status_def
      res_cookie_def user_json_def user_fields_def Let_def eval_defs)

subsection \<open>Freshness of the session token\<close>

text \<open>
  C2. A request that reaches \<open>protect\<close> with a token whose issued-at time is earlier
  than the \<open>passwordChangedAt\<close> of its user is rejected with a 401 error; a token issued
  after the last password change, and otherwise valid (a token is found, it verifies, its
  user exists), is accepted: \<^verbatim>\<open>next()\<close> is called and the user is attached to the
  request.
\<close>

theorem protect_freshness:
  assumes "truthy (extract_token rq) = Some tok"
    and "jwt_verify env tok now = Inr (i, iat)"
    and "findById db i = Some u"
    and "passwordChangedAt u = Some t"
  shows "(iat < t \<longrightarrow>
            protect env now db rq =
              (NextErr (AppError ''User recently changed his password! Please log in again.''
                 401), rq))
       \<and> (t < iat \<longrightarrow> protect env now db rq = (Next, rq\<lparr>req_user := Some u\<rparr>))"
  using assms by (simp add: protect_def changedPasswordAfter_def)

theorem protect_freshness_witness:
  "(100::nat) < 500
 \<and> protect env0 1000 [user0\<lparr>passwordChangedAt := Some 500\<rparr>]
       (req0\<lparr>authorization := Some ''Bearer good''\<rparr>) =
     (NextErr (AppError ''User recently changed his password! Please log in again.'' 401),
      req0\<lparr>authorization := Some ''Bearer good''\<rparr>)
 \<and> (50::nat) < 100
 \<and> protect env0 1000 [user0\<lparr>passwordChangedAt := Some 50\<rparr>]
       (req0\<lparr>authorization := Some ''Bearer good''\<rparr>) =
     (Next, req0\<lparr>authorization := Some ''Bearer good'',
                 req_user := Some (deselect (user0\<lparr>passwordChangedAt := Some 50\<rparr>))\<rparr>)"
proof -
  let ?rq = "req0\<lparr>authorization := Some ''Bearer good''\<rparr>"
  have t: "truthy (extract_token ?rq) = Some ''good''"
    by (simp add: eval_defs)
  have v: "jwt_verify env0 ''good'' 1000 = Inr (''u1'', 100)"
    by (simp add: env0_def)
  have f1: "findById [user0\<lparr>passwordChangedAt := Some 500\<rparr>] ''u1'' =
              Some (deselect (user0\<lparr>passwordChangedAt := Some 500\<rparr>))"
    by (simp add: findById_def user0_def)
  have f2: "findById [user0\<lparr>passwordChangedAt := Some 50\<rparr>] ''u1'' =
              Some (deselect (user0\<lparr>passwordChangedAt := Some 50\<rparr>))"
    by (simp add: findById_def user0_def)
  have c1: "passwordChangedAt (deselect (user0\<lparr>passwordChangedAt := Some 500\<rparr>)) = Some 500"
    by (simp add: deselect_def)
  have c2: "passwordChangedAt (deselect (user0\<lparr>passwordChangedAt := Some 50\<rparr>)) = Some 50"
    by (simp add: deselect_def)
  from protect_freshness [OF t v f1 c1] protect_freshness [OF t v f2 c2]
  show ?thesis by simp
qed

subsection \<open>Login failures\<close>

text \<open>
  C4. Two login attempts that both give an email and a password, one with the email of
  an account and a wrong password, one with an email of no account, have the same
  outcome: nothing is written to the response, and \<^verbatim>\<open>next\<close> receives the same error,
  status 401 and message "Incorrect email or password!".
\<close>

theorem login_no_enumeration:
  assumes "\<not> falsy (body rq1 ''email'')" and "\<not> falsy (body rq1 ''password'')"
    and "\<not> falsy (body rq2 ''email'')" and "\<not> falsy (body rq2 ''password'')"
    and "findOne_email_select_password db (body rq1 ''email'') = Some usr"
    and "\<not> correctPassword env (body rq1 ''password'') (password usr)"
    and "findOne_email_select_password db (body rq2 ''email'') = None"
  shows "login env now1 db rq1 r =
           \<lparr>response = r, flow = NextErr (AppError ''Incorrect email or password!'' 401),
            store = db\<rparr>
       \<and> login env now2 db rq2 r = login env now1 db rq1 r"
  using assms by (simp add: login_def Let_def)

theorem login_no_enumeration_witness:
  "login env0 1000 [user0]
     (req0\<lparr>body := [''email'' \<mapsto> ''a@x.com'', ''password'' \<mapsto> ''wrong'']\<rparr>) res0 =
     \<lparr>response = res0, flow = NextErr (AppError ''Incorrect email or password!'' 401),
      store = [user0]\<rparr>
 \<and> login env0 2000 [user0]
     (req0\<lparr>body := [''email'' \<mapsto> ''z@x.com'', ''password'' \<mapsto> ''right'']\<rparr>) res0 =
   login env0 1000 [user0]
     (req0\<lparr>body := [''email'' \<mapsto> ''a@x.com'', ''password'' \<mapsto> ''wrong'']\<rparr>) res0"
proof -
  let ?rq1 = "req0\<lparr>body := [''email'' \<mapsto> ''a@x.com'', ''password'' \<mapsto> ''wrong'']\<rparr>"
  let ?rq2 = "req0\<lparr>body := [''email'' \<mapsto> ''z@x.com'', ''password'' \<mapsto> ''right'']\<rparr>"
  have h1: "\<not> falsy (body ?rq1 ''email'')" and h2: "\<not> falsy (body ?rq1 ''password'')"
    and h3: "\<not> falsy (body ?rq2 ''email'')" and h4: "\<not> falsy (body ?rq2 ''password'')"
    by (simp_all add: falsy_def)
  have h5: "findOne_email_select_password [user0] (body ?rq1 ''email'') = Some user0"
    by (simp add: findOne_email_select_password_def user0_def)
  have h6: "\<not> correctPassword env0 (body ?rq1 ''password'') (password user0)"
    by (simp add: env0_def user0_def)
  have h7: "findOne_email_select_password [user0] (body ?rq2 ''email'') = None"
    by (simp add: findOne_email_select_password_def user0_def)
  from login_no_enumeration [OF h1 h2 h3 h4 h5 h6 h7, of 1000 res0 2000]
  show ?thesis by simp
qed

subsection \<open>Reset tokens\<close>

lemma find_SomeD: "find P xs = Some x \<Longrightarrow> x \<in> set xs \<and> P x"
  by (induction xs) (auto split: if_splits)

lemma uid_write_path: "uid (write_path src p dst) = uid dst"
  by (cases p) simp_all

lemma uid_write_paths: "uid (write_paths ps src dst) = uid dst"
  unfolding write_paths_def
  by (induction ps arbitrary: dst) (simp_all add: uid_write_path)

lemma token_write_paths:
  "passwordResetToken (write_paths ps src dst) =
     (if P_passwordResetToken \<in> set ps then passwordResetToken src else passwordResetToken dst)"
  unfolding write_paths_def
proof (induction ps arbitrary: dst)
  case Nil
  show ?case by simp
next
  case (Cons p ps)
  show ?case by (cases p) (simp_all add: Cons.IH)
qed

lemma expires_write_paths:
  "passwordResetExpires (write_paths ps src dst) =
     (if P_passwordResetExpires \<in> set ps then passwordResetExpires src
      else passwordResetExpires dst)"
  unfolding write_paths_def
proof (induction ps arbitrary: dst)
  case Nil
  show ?case by simp
next
  case (Cons p ps)
  show ?case by (cases p) (simp_all add: Cons.IH)
qed

lemma preSave_keeps:
  assumes "preSave env now isNew ps doc = (doc', ps')"
  shows "uid doc' = uid doc \<and> passwordResetToken doc' = passwordResetToken doc
       \<and> passwordResetExpires doc' = passwordResetExpires doc \<and> set ps \<subseteq> set ps'"
  using assms by (auto simp: preSave_def split: if_splits)

lemma save_reset_fields:
  assumes "save env now vb ps doc db = Inr (saved, db')"
    and "P_passwordResetToken \<in> set ps" and "P_passwordResetExpires \<in> set ps"
    and "v \<in> set db'"
  shows "(uid v = uid doc \<longrightarrow>
            passwordResetToken v = passwordResetToken doc
            \<and> passwordResetExpires v = passwordResetExpires doc)
       \<and> (uid v \<noteq> uid doc \<longrightarrow> v \<in> set db)"
proof -
  obtain doc' ps' where p: "preSave env now False ps doc = (doc', ps')"
    by (cases "preSave env now False ps doc")
  note k = preSave_keeps [OF p]
  from assms(1) p have db': "db' = map (\<lambda>w. if uid w = uid doc then write_paths ps' doc' w else w) db"
    by (simp add: save_def split: if_splits)
  from assms(4) db' obtain w where w: "w \<in> set db"
    "v = (if uid w = uid doc then write_paths ps' doc' w else w)"
    by auto
  show ?thesis
  proof (cases "uid w = uid doc")
    case True
    with w k assms(2,3) show ?thesis
      by (auto simp: token_write_paths expires_write_paths uid_write_paths)
  next
    case False
    with w show ?thesis by simp
  qed
qed

lemma findOne_reset_SomeD:
  assumes "findOne_reset db h now = Some usr"
  shows "\<exists>u0\<in>set db. passwordResetToken u0 = Some h \<and> uid u0 = uid usr"
  using assms by (auto simp: findOne_reset_def reset_match_def deselect_def dest!: find_SomeD)

lemma findOne_reset_NoneI:
  assumes "\<And>v. v \<in> set db \<Longrightarrow> passwordResetToken v \<noteq> Some h"
  shows "findOne_reset db h now = None"
  using assms by (auto simp: findOne_reset_def reset_match_def find_None_iff)

lemma resetPassword_rejects:
  assumes "\<And>v. v \<in> set db \<Longrightarrow> passwordResetToken v \<noteq> Some (sha256 env (params_token rq))"
  shows "resetPassword env now db rq r =
           \<lparr>response = r, flow = NextErr (AppError ''Token is invalid or has expired!'' 400),
            store = db\<rparr>"
  using findOne_reset_NoneI [of db "sha256 env (params_token rq)" now] assms
  by (simp add: resetPassword_def)

text \<open>
  C5. When \<open>resetPassword\<close> consumes a reset token (it ends with \<^verbatim>\<open>next()\<close>), the
  document handed to \<^verbatim>\<open>save\<close> has \<open>passwordResetToken\<close> and \<open>passwordResetExpires\<close>
  cleared, the stored account has both cleared, and, the hashed token identifying one
  account, every later \<open>resetPassword\<close> with the same raw token, at any time, fails with
  the 400 error and changes nothing.
\<close>

theorem resetPassword_single_use:
  assumes ok: "flow (resetPassword env now db rq r) = Next"
  shows "\<exists>usr. findOne_reset db (sha256 env (params_token rq)) now = Some usr
           \<and> passwordResetToken (resetPassword_assign rq usr) = None
           \<and> passwordResetExpires (resetPassword_assign rq usr) = None
           \<and> (\<forall>v\<in>set (store (resetPassword env now db rq r)).
                 uid v = uid usr \<longrightarrow>
                   passwordResetToken v = None \<and> passwordResetExpires v = None)
           \<and> (unique_reset_token db (sha256 env (params_token rq)) \<longrightarrow>
                (\<forall>now' rq' r'. params_token rq' = params_token rq \<longrightarrow>
                   resetPassword env now' (store (resetPassword env now db rq r)) rq' r' =
                     \<lparr>response = r',
                      flow = NextErr (AppError ''Token is invalid or has expired!'' 400),
                      store = store (resetPassword env now db rq r)\<rparr>))"
proof -
  let ?h = "sha256 env (params_token rq)"
  let ?ps = "[P_password, P_confirmPassword, P_passwordResetToken, P_passwordResetExpires]"
  have "\<exists>usr saved db'. findOne_reset db ?h now = Some usr
          \<and> save env now True ?ps (resetPassword_assign rq usr) db = Inr (saved, db')"
  proof (cases "findOne_reset db ?h now")
    case None
    with ok show ?thesis by (simp add: resetPassword_def)
  next
    case (Some usr)
    show ?thesis
    proof (cases "save env now True ?ps (resetPassword_assign rq usr) db")
      case (Inl e)
      with Some ok show ?thesis by (simp add: resetPassword_def)
    next
      case (Inr p)
      with Some show ?thesis by (cases p) simp
    qed
  qed
  then obtain usr saved db' where f: "findOne_reset db ?h now = Some usr"
    and s: "save env now True ?ps (resetPassword_assign rq usr) db = Inr (saved, db')"
    by blast
  let ?doc = "resetPassword_assign rq usr"
  from f s have st: "store (resetPassword env now db rq r) = db'"
    by (simp add: resetPassword_def)
  have doc: "passwordResetToken ?doc = None" "passwordResetExpires ?doc = None"
    "uid ?doc = uid usr"
    by (simp_all add: resetPassword_assign_def)
  have fields: "(uid v = uid usr \<longrightarrow> passwordResetToken v = None \<and> passwordResetExpires v = None)
       \<and> (uid v \<noteq> uid usr \<longrightarrow> v \<in> set db)" if "v \<in> set db'" for v
    using save_reset_fields [OF s _ _ that] doc by simp
  have again: "resetPassword env now' db' rq' r' =
      \<lparr>response = r', flow = NextErr (AppError ''Token is invalid or has expired!'' 400),
       store = db'\<rparr>"
    if u: "unique_reset_token db ?h" and t: "params_token rq' = params_token rq"
    for now' rq' r'
  proof (rule resetPassword_rejects)
    fix v assume v: "v \<in> set db'"
    from findOne_reset_SomeD [OF f] obtain u0 where u0: "u0 \<in> set db"
      "passwordResetToken u0 = Some ?h" "uid u0 = uid usr" by blast
    show "passwordResetToken v \<noteq> Some (sha256 env (params_token rq'))"
    proof
      assume a: "passwordResetToken v = Some (sha256 env (params_token rq'))"
      with fields [OF v] have "uid v \<noteq> uid usr" and "v \<in> set db" by auto
      moreover from a t u u0 \<open>v \<in> set db\<close> have "uid v = uid u0"
        unfolding unique_reset_token_def by metis
      ultimately show False using u0 by simp
    qed
  qed
  have A: "\<forall>v\<in>set (store (resetPassword env now db rq r)).
               uid v = uid usr \<longrightarrow> passwordResetToken v = None \<and> passwordResetExpires v = None"
    unfolding st using fields by blast
  have B: "unique_reset_token db ?h \<longrightarrow>
             (\<forall>now' rq' r'. params_token rq' = params_token rq \<longrightarrow>
                resetPassword env now' (store (resetPassword env now db rq r)) rq' r' =
                  \<lparr>response = r',
                   flow = NextErr (AppError ''Token is invalid or has expired!'' 400),
                   store = store (resetPassword env now db rq r)\<rparr>)"
    unfolding st using again by blast
  show ?thesis
  proof (intro exI [of _ usr] conjI)
    show "findOne_reset db ?h now = Some usr" by (rule f)
    show "passwordResetToken ?doc = None" by (rule doc)
    show "passwordResetExpires ?doc = None" by (rule doc)
  qed (rule A, rule B)
qed

lemma reset_store:
  "resetPassword env0 1000 db_reset req_reset res0 =
     \<lparr>response = createSendToken env0 1000
         (user0\<lparr>password := Some ''$new'', passwordChangedAt := Some 1000\<rparr>) 201 res0,
      flow = Next,
      store = [user0\<lparr>password := Some ''$new'', passwordChangedAt := Some 1000\<rparr>]\<rparr>"
  by (simp add: resetPassword_def save_def preSave_def write_paths_def resetPassword_assign_def
      db_reset_def req_reset_def eval_defs)

theorem resetPassword_single_use_witness:
  "flow (resetPassword env0 1000 db_reset req_reset res0) = Next
 \<and> unique_reset_token db_reset (sha256 env0 (params_token req_reset))
 \<and> (2000::nat) < 5000
 \<and> store (resetPassword env0 1000 db_reset req_reset res0) =
     [user0\<lparr>password := Some ''$new'', passwordChangedAt := Some 1000\<rparr>]
 \<and> resetPassword env0 2000 (store (resetPassword env0 1000 db_reset req_reset res0))
       req_reset res0 =
     \<lparr>response = res0, flow = NextErr (AppError ''Token is invalid or has expired!'' 400),
      store = store (resetPassword env0 1000 db_reset req_reset res0)\<rparr>"
proof -
  have h: "flow (resetPassword env0 1000 db_reset req_reset res0) = Next"
    by (simp add: reset_store)
  have u: "unique_reset_token db_reset (sha256 env0 (params_token req_reset))"
    by (simp add: unique_reset_token_def db_reset_def)
  from resetPassword_single_use [OF h] u
  have "resetPassword env0 2000 (store (resetPassword env0 1000 db_reset req_reset res0))
       req_reset res0 =
     \<lparr>response = res0, flow = NextErr (AppError ''Token is invalid or has expired!'' 400),
      store = store (resetPassword env0 1000 db_reset req_reset res0)\<rparr>"
    by blast
  with h u show ?thesis by (simp add: reset_store)
qed

lemma forgotPassword_mail_method:
  "forgotPassword_mail rq (snd (passwordResetToken_method env now raw usr)) t =
     forgotPassword_mail rq usr t"
  by (simp add: forgotPassword_mail_def passwordResetToken_method_def)

text \<open>
  C6. When \<open>forgotPassword\<close> finds the account and sending the email fails, the
  controller gives the 500 error to \<^verbatim>\<open>next\<close>, writes no response, and the store it
  leaves has \<open>passwordResetToken\<close> and \<open>passwordResetExpires\<close> of the account cleared;
  no other account holding the same hashed token, every later \<open>resetPassword\<close> with the
  raw token that was drawn fails with the 400 error.
\<close>

theorem forgotPassword_send_failure:
  assumes f: "findOne_email db (body rq ''email'') = Some usr"
    and m: "\<not> sendEmail env (forgotPassword_mail rq usr raw)"
  shows "flow (forgotPassword env now raw db rq r) =
           NextErr (AppError ''There was an error sending the email. Try again later!'' 500)
       \<and> response (forgotPassword env now raw db rq r) = r
       \<and> (\<forall>v\<in>set (store (forgotPassword env now raw db rq r)).
             uid v = uid usr \<longrightarrow> passwordResetToken v = None \<and> passwordResetExpires v = None)
       \<and> ((\<forall>v\<in>set db. uid v \<noteq> uid usr \<longrightarrow> passwordResetToken v \<noteq> Some (sha256 env raw)) \<longrightarrow>
            (\<forall>now' rq' r'. params_token rq' = raw \<longrightarrow>
               resetPassword env now' (store (forgotPassword env now raw db rq r)) rq' r' =
                 \<lparr>response = r',
                  flow = NextErr (AppError ''Token is invalid or has expired!'' 400),
                  store = store (forgotPassword env now raw db rq r)\<rparr>))"
proof -
  let ?ps = "[P_passwordResetToken, P_passwordResetExpires]"
  let ?doc = "(snd (passwordResetToken_method env now raw usr))
                \<lparr>passwordResetToken := None, passwordResetExpires := None\<rparr>"
  have doc: "passwordResetToken ?doc = None" "passwordResetExpires ?doc = None"
    "uid ?doc = uid usr"
    by (simp_all add: passwordResetToken_method_def)
  obtain saved db' where s: "save env now False ?ps ?doc db = Inr (saved, db')"
    by (cases "save env now False ?ps ?doc db") (auto simp: save_def split: prod.splits)
  from m have m': "\<not> sendEmail env (forgotPassword_mail rq
       (snd (passwordResetToken_method env now raw usr))
       (fst (passwordResetToken_method env now raw usr)))"
    by (simp add: forgotPassword_mail_method) (simp add: passwordResetToken_method_def)
  from f m' s have out: "forgotPassword env now raw db rq r =
      \<lparr>response = r,
       flow = NextErr (AppError ''There was an error sending the email. Try again later!'' 500),
       store = db'\<rparr>"
    by (simp add: forgotPassword_def Let_def case_prod_beta)
  have fields: "(uid v = uid usr \<longrightarrow> passwordResetToken v = None \<and> passwordResetExpires v = None)
       \<and> (uid v \<noteq> uid usr \<longrightarrow> v \<in> set db)" if "v \<in> set db'" for v
    using save_reset_fields [OF s _ _ that] doc by simp
  have again: "resetPassword env now' db' rq' r' =
      \<lparr>response = r', flow = NextErr (AppError ''Token is invalid or has expired!'' 400),
       store = db'\<rparr>"
    if u: "\<forall>v\<in>set db. uid v \<noteq> uid usr \<longrightarrow> passwordResetToken v \<noteq> Some (sha256 env raw)"
      and t: "params_token rq' = raw"
    for now' rq' r'
  proof (rule resetPassword_rejects)
    fix v assume v: "v \<in> set db'"
    show "passwordResetToken v \<noteq> Some (sha256 env (params_token rq'))"
      using fields [OF v] u t by (cases "uid v = uid usr") auto
  qed
  have st: "store (forgotPassword env now raw db rq r) = db'"
    by (simp add: out)
  have A: "\<forall>v\<in>set (store (forgotPassword env now raw db rq r)).
               uid v = uid usr \<longrightarrow> passwordResetToken v = None \<and> passwordResetExpires v = None"
    unfolding st using fields by blast
  have B: "(\<forall>v\<in>set db. uid v \<noteq> uid usr \<longrightarrow> passwordResetToken v \<noteq> Some (sha256 env raw)) \<longrightarrow>
            (\<forall>now' rq' r'. params_token rq' = raw \<longrightarrow>
               resetPassword env now' (store (forgotPassword env now raw db rq r)) rq' r' =
                 \<lparr>response = r',
                  flow = NextErr (AppError ''Token is invalid or has expired!'' 400),
                  store = store (forgotPassword env now raw db rq r)\<rparr>)"
    unfolding st using again by blast
  show ?thesis
  proof (intro conjI)
    show "flow (forgotPassword env now raw db rq r) =
        NextErr (AppError ''There was an error sending the email. Try again later!'' 500)"
      by (simp add: out)
    show "response (forgotPassword env now raw db rq r) = r"
      by (simp add: out)
  qed (rule A, rule B)
qed

theorem forgotPassword_send_failure_witness:
  "findOne_email db_reset (body req_forgot ''email'') = Some (deselect (hd db_reset))
 \<and> \<not> sendEmail env0 (forgotPassword_mail req_forgot (deselect (hd db_reset)) ''r4nd'')
 \<and> flow (forgotPassword env0 1000 ''r4nd'' db_reset req_forgot res0) =
     NextErr (AppError ''There was an error sending the email. Try again later!'' 500)
 \<and> store (forgotPassword env0 1000 ''r4nd'' db_reset req_forgot res0) = [user0]
 \<and> flow (resetPassword env0 1001
            (store (forgotPassword env0 1000 ''r4nd'' db_reset req_forgot res0))
            (req_reset\<lparr>params_token := ''r4nd''\<rparr>) res0) =
     NextErr (AppError ''Token is invalid or has expired!'' 400)"
proof -
  have f: "findOne_email db_reset (body req_forgot ''email'') = Some (deselect (hd db_reset))"
    by (simp add: db_reset_def req_forgot_def eval_defs)
  have m: "\<not> sendEmail env0 (forgotPassword_mail req_forgot (deselect (hd db_reset)) ''r4nd'')"
    by (simp add: env0_def)
  have o: "\<forall>v\<in>set db_reset. uid v \<noteq> uid (deselect (hd db_reset)) \<longrightarrow>
             passwordResetToken v \<noteq> Some (sha256 env0 ''r4nd'')"
    by (simp add: db_reset_def deselect_def)
  have st: "store (forgotPassword env0 1000 ''r4nd'' db_reset req_forgot res0) = [user0]"
    by (simp add: forgotPassword_def save_def preSave_def write_paths_def
        passwordResetToken_method_def db_reset_def req_forgot_def eval_defs)
  have p: "params_token (req_reset\<lparr>params_token := ''r4nd''\<rparr>) = ''r4nd''"
    by simp
  from forgotPassword_send_failure [OF f m, of 1000 res0] o p
  have "flow (forgotPassword env0 1000 ''r4nd'' db_reset req_forgot res0) =
     NextErr (AppError ''There was an error sending the email. Try again later!'' 500)
   \<and> resetPassword env0 1001
            (store (forgotPassword env0 1000 ''r4nd'' db_reset req_forgot res0))
            (req_reset\<lparr>params_token := ''r4nd''\<rparr>) res0 =
     \<lparr>response = res0, flow = NextErr (AppError ''Token is invalid or has expired!'' 400),
      store = store (forgotPassword env0 1000 ''r4nd'' db_reset req_forgot res0)\<rparr>"
    by blast
  with f m st show ?thesis by simp
qed

subsection \<open>Verification failures\<close>

lemma protect_verify_failure:
  assumes "truthy (extract_token rq) = Some tok" and "jwt_verify env tok now = Inl e"
  shows "protect env now db rq = (Threw (JwtError e), rq)"
  using assms by (simp add: protect_def)

subsection \<open>Logout\<close>

lemma receive_logout:
  "receive j (logout t rq res0) =
     j(''jwt'' \<mapsto> \<lparr>c_value = ''loggedout'', c_expires = t + 10000, httpOnly = True,
                  secure = False, sameSite = ''Lax''\<rparr>)"
  by (simp add: receive_def logout_def res0_def res_cookie_def res_status_def res_json_def)

lemma logout_calls_snoc:
  "logout_calls (calls @ [(t, rq)]) j =
     (logout_calls calls j)
       (''jwt'' \<mapsto> \<lparr>c_value = ''loggedout'', c_expires = t + 10000, httpOnly = True,
                   secure = False, sameSite = ''Lax''\<rparr>)"
  by (simp add: logout_calls_def receive_logout)

lemma logout_calls_other: "n \<noteq> ''jwt'' \<Longrightarrow> logout_calls calls j n = j n"
proof (induction calls arbitrary: j)
  case Nil
  show ?case by (simp add: logout_calls_def)
next
  case (Cons c calls)
  have "logout_calls (c # calls) j = logout_calls calls (receive j (logout (fst c) (snd c) res0))"
    by (simp add: logout_calls_def)
  with Cons show ?case by (simp add: receive_logout)
qed

text \<open>
  C8. \<open>logout\<close> does not read the request: whatever the session state, it answers on a
  new response object with the cookie \<^verbatim>\<open>jwt\<close> set to the sentinel
  \<^verbatim>\<open>loggedout\<close>, expiring ten seconds after the call, status 200 and the body
  \<^verbatim>\<open>{status: "success"}\<close>. For a client that has made any number of logout calls and
  then one at time \<open>t\<close>, the cookies are the same as after that one call alone.
\<close>

theorem logout_idempotent:
  "logout t rq r = logout t rq' r
 \<and> logout t rq res0 =
     \<lparr>cookies = [(''jwt'', \<lparr>c_value = ''loggedout'', c_expires = t + 10000,
                           httpOnly = True, secure = False, sameSite = ''Lax''\<rparr>)],
      statusCode = 200,
      sent = Some (JObj [(''status'', JStr ''success'')])\<rparr>
 \<and> logout_calls (calls @ [(t, rq)]) j = logout_calls [(t, rq')] j
 \<and> logout_calls (calls @ [(t, rq)]) j ''jwt'' =
     Some \<lparr>c_value = ''loggedout'', c_expires = t + 10000, httpOnly = True,
           secure = False, sameSite = ''Lax''\<rparr>"
proof (intro conjI)
  show "logout t rq r = logout t rq' r"
    by (simp add: logout_def)
  show "logout t rq res0 =
     \<lparr>cookies = [(''jwt'', \<lparr>c_value = ''loggedout'', c_expires = t + 10000,
                           httpOnly = True, secure = False, sameSite = ''Lax''\<rparr>)],
      statusCode = 200,
      sent = Some (JObj [(''status'', JStr ''success'')])\<rparr>"
    by (simp add: logout_def res0_def res_cookie_def res_status_def res_json_def)
  show "logout_calls (calls @ [(t, rq)]) j = logout_calls [(t, rq')] j"
  proof
    fix n
    show "logout_calls (calls @ [(t, rq)]) j n = logout_calls [(t, rq')] j n"
      using logout_calls_snoc [of calls t rq j] logout_calls_snoc [of "[]" t rq' j]
        logout_calls_other [of n calls j]
      by (cases "n = ''jwt''") (simp_all add: logout_calls_def)
  qed
  show "logout_calls (calls @ [(t, rq)]) j ''jwt'' =
     Some \<lparr>c_value = ''loggedout'', c_expires = t + 10000, httpOnly = True,
           secure = False, sameSite = ''Lax''\<rparr>"
    by (simp add: logout_calls_snoc)
qed

subsection \<open>Signup\<close>

lemma signup_reads:
  assumes "body rq' ''name'' = body rq ''name''" and "body rq' ''email'' = body rq ''email''"
    and "body rq' ''password'' = body rq ''password''"
    and "body rq' ''confirmPassword'' = body rq ''confirmPassword''"
  shows "signup env now oid db rq' r = signup env now oid db rq r"
  using assms by (simp add: signup_def)

lemma User_create_Inr:
  assumes "User_create env now oid db nm em pw cpw = Inr (u, db')"
  shows "db' = db @ [u] \<and> uid u = oid \<and> name u = nm \<and> email u = em \<and> role u = ''user''"
  using assms
  by (auto simp: User_create_def Let_def preSave_def defaultRole_def split: if_splits)

text \<open>
  C9. \<open>signup\<close> reads the four body fields \<^verbatim>\<open>name\<close>, \<^verbatim>\<open>email\<close>,
  \<^verbatim>\<open>password\<close> and \<^verbatim>\<open>confirmPassword\<close> and nothing else of the request: two
  requests that agree on them have the same outcome. A signup that succeeds adds one user
  to the store, built from these fields, and its role is the default role \<^verbatim>\<open>user\<close>;
  a signup that fails leaves the store as it was.
\<close>

theorem signup_four_fields:
  assumes "\<forall>k\<in>{''name'', ''email'', ''password'', ''confirmPassword''}. body rq' k = body rq k"
  shows "signup env now oid db rq' r = signup env now oid db rq r
       \<and> (flow (signup env now oid db rq r) = Next \<longrightarrow>
            (\<exists>u. store (signup env now oid db rq r) = db @ [u] \<and> uid u = oid
                 \<and> name u = body rq ''name'' \<and> email u = body rq ''email''
                 \<and> role u = ''user''))
       \<and> (flow (signup env now oid db rq r) \<noteq> Next \<longrightarrow>
            store (signup env now oid db rq r) = db)"
proof (intro conjI)
  show "signup env now oid db rq' r = signup env now oid db rq r"
    using assms by (intro signup_reads) simp_all
  let ?c = "User_create env now oid db (body rq ''name'') (body rq ''email'')
              (body rq ''password'') (body rq ''confirmPassword'')"
  show "flow (signup env now oid db rq r) = Next \<longrightarrow>
            (\<exists>u. store (signup env now oid db rq r) = db @ [u] \<and> uid u = oid
                 \<and> name u = body rq ''name'' \<and> email u = body rq ''email''
                 \<and> role u = ''user'')"
  proof (cases ?c)
    case (Inl e)
    then show ?thesis by (simp add: signup_def)
  next
    case (Inr p)
    obtain u db' where p: "p = (u, db')" by (cases p)
    from User_create_Inr [OF Inr [unfolded p]] Inr p show ?thesis
      by (simp add: signup_def)
  qed
  show "flow (signup env now oid db rq r) \<noteq> Next \<longrightarrow> store (signup env now oid db rq r) = db"
    by (cases ?c) (auto simp: signup_def)
qed

theorem signup_four_fields_witness:
  "signup env0 1000 ''u2'' [user0] (req_signup\<lparr>body := (body req_signup)(''role'' \<mapsto> ''admin'')\<rparr>) res0 =
     signup env0 1000 ''u2'' [user0] req_signup res0
 \<and> flow (signup env0 1000 ''u2'' [user0] req_signup res0) = Next
 \<and> store (signup env0 1000 ''u2'' [user0]
            (req_signup\<lparr>body := (body req_signup)(''role'' \<mapsto> ''admin'')\<rparr>) res0) =
     [user0, \<lparr>uid = ''u2'', name = Some ''Bob'', email = Some ''b@x.com'', role = ''user'',
              password = Some ''$pw'', confirmPassword = None, passwordChangedAt = None,
              passwordResetToken = None, passwordResetExpires = None\<rparr>]"
proof -
  let ?rq' = "req_signup\<lparr>body := (body req_signup)(''role'' \<mapsto> ''admin'')\<rparr>"
  have a: "\<forall>k\<in>{''name'', ''email'', ''password'', ''confirmPassword''}.
             body ?rq' k = body req_signup k"
    by simp
  have n: "flow (signup env0 1000 ''u2'' [user0] req_signup res0) = Next"
    by (simp add: signup_def User_create_def preSave_def req_signup_def env0_def req0_def)
  have s: "store (signup env0 1000 ''u2'' [user0] req_signup res0) =
     [user0, \<lparr>uid = ''u2'', name = Some ''Bob'', email = Some ''b@x.com'', role = ''user'',
              password = Some ''$pw'', confirmPassword = None, passwordChangedAt = None,
              passwordResetToken = None, passwordResetExpires = None\<rparr>]"
    by (simp add: signup_def User_create_def preSave_def req_signup_def env0_def req0_def
        defaultRole_def)
  from signup_four_fields [OF a, of env0 1000 "''u2''" "[user0]" res0] n s
  show ?thesis by simp
qed

subsection \<open>The name of the confirmation field\<close>

lemma save_Next_iff:
  "(flow (case save env now True ps doc db of
            Inl e \<Rightarrow> \<lparr>response = r, flow = Threw e, store = db\<rparr>
          | Inr (saved, db') \<Rightarrow> \<lparr>response = f saved, flow = Next, store = db'\<rparr>) = Next) =
     validate env doc"
  by (simp add: save_def split: prod.split)

lemma signup_validation:
  "(flow (signup env now oid db rq r) = Threw ValidationError) =
     (\<not> validate env
        \<lparr>uid = oid, name = body rq ''name'', email = body rq ''email'', role = ''user'',
         password = body rq ''password'', confirmPassword = body rq ''confirmPassword'',
         passwordChangedAt = None, passwordResetToken = None, passwordResetExpires = None\<rparr>)"
  by (simp add: signup_def User_create_def Let_def defaultRole_def split: prod.split)

lemma signup_Next_validated:
  "flow (signup env now oid db rq r) = Next \<longrightarrow>
     validate env
        \<lparr>uid = oid, name = body rq ''name'', email = body rq ''email'', role = ''user'',
         password = body rq ''password'', confirmPassword = body rq ''confirmPassword'',
         passwordChangedAt = None, passwordResetToken = None, passwordResetExpires = None\<rparr>"
  by (simp add: signup_def User_create_def Let_def defaultRole_def split: prod.split)

lemma resetPassword_hands_to_save:
  assumes "findOne_reset db (sha256 env (params_token rq)) now = Some usr"
  shows "resetPassword env now db rq r =
     (case save env now True
             [P_password, P_confirmPassword, P_passwordResetToken, P_passwordResetExpires]
             (usr\<lparr>password := body rq ''password'',
                  confirmPassword := body rq ''confirmPassword'',
                  passwordResetToken := None, passwordResetExpires := None\<rparr>) db of
        Inl e \<Rightarrow> \<lparr>response = r, flow = Threw e, store = db\<rparr>
      | Inr (saved, db') \<Rightarrow>
          \<lparr>response = createSendToken env now saved 201 r, flow = Next, store = db'\<rparr>)"
  using assms by (simp add: resetPassword_def resetPassword_assign_def)

lemma updatePassword_hands_to_save:
  assumes "req_user rq = Some ru" and "findById_select_password db (uid ru) = Some cur"
    and "correctPassword env (body rq ''passwordCurrent'') (password cur)"
  shows "updatePassword env now db rq r =
     (case save env now True [P_password, P_confirmPassword, P_passwordChangedAt]
             (cur\<lparr>password := body rq ''password'',
                  confirmPassword := body rq ''passwordConfirm'',
                  passwordChangedAt := Some now\<rparr>) db of
        Inl e \<Rightarrow> \<lparr>response = r, flow = Threw e, store = db\<rparr>
      | Inr (saved, db') \<Rightarrow>
          \<lparr>response = createSendToken env now saved 201 r, flow = Next, store = db'\<rparr>)"
  using assms by (simp add: updatePassword_def updatePassword_assign_def)

lemma other_field_not_read:
  "signup env now oid db (rq\<lparr>body := (body rq)(''passwordConfirm'' := x)\<rparr>) r =
      signup env now oid db rq r"
  "resetPassword env now db (rq\<lparr>body := (body rq)(''passwordConfirm'' := x)\<rparr>) r =
      resetPassword env now db rq r"
  "updatePassword env now db (rq\<lparr>body := (body rq)(''confirmPassword'' := x)\<rparr>) r =
      updatePassword env now db rq r"
  by (simp_all add: resetPassword_assign_def updatePassword_assign_def signup_def
      resetPassword_def updatePassword_def cong: option.case_cong sum.case_cong if_cong)

text \<open>
  C10. The confirmation is read from the body field \<^verbatim>\<open>confirmPassword\<close> by signup
  and by resetPassword, and from \<^verbatim>\<open>passwordConfirm\<close> by updatePassword. Signup throws
  a validation error exactly when the validators reject the new document whose
  confirmation is \<^verbatim>\<open>body.confirmPassword\<close>. Once its user is found, resetPassword
  hands to \<^verbatim>\<open>save\<close> the document whose confirmation is \<^verbatim>\<open>body.confirmPassword\<close>,
  and it succeeds exactly when the validators accept that document. Once the current
  password is accepted, updatePassword hands to \<^verbatim>\<open>save\<close> the document whose
  confirmation is \<^verbatim>\<open>body.passwordConfirm\<close>, and it succeeds exactly when the
  validators accept that document; when the request gives no \<^verbatim>\<open>passwordConfirm\<close>
  (it may give \<^verbatim>\<open>confirmPassword\<close> instead), that confirmation is undefined. Neither
  flow reads the other field name.
\<close>

theorem confirmation_field_names:
  "(flow (signup env now oid db rq r) = Threw ValidationError) =
     (\<not> validate env
        \<lparr>uid = oid, name = body rq ''name'', email = body rq ''email'', role = ''user'',
         password = body rq ''password'', confirmPassword = body rq ''confirmPassword'',
         passwordChangedAt = None, passwordResetToken = None, passwordResetExpires = None\<rparr>)
 \<and> (flow (signup env now oid db rq r) = Next \<longrightarrow>
      validate env
        \<lparr>uid = oid, name = body rq ''name'', email = body rq ''email'', role = ''user'',
         password = body rq ''password'', confirmPassword = body rq ''confirmPassword'',
         passwordChangedAt = None, passwordResetToken = None, passwordResetExpires = None\<rparr>)
 \<and> (findOne_reset db (sha256 env (params_token rq)) now = Some usr \<longrightarrow>
      resetPassword env now db rq r =
        (case save env now True
                [P_password, P_confirmPassword, P_passwordResetToken, P_passwordResetExpires]
                (usr\<lparr>password := body rq ''password'',
                     confirmPassword := body rq ''confirmPassword'',
                     passwordResetToken := None, passwordResetExpires := None\<rparr>) db of
           Inl e \<Rightarrow> \<lparr>response = r, flow = Threw e, store = db\<rparr>
         | Inr (saved, db') \<Rightarrow>
             \<lparr>response = createSendToken env now saved 201 r, flow = Next, store = db'\<rparr>)
      \<and> (flow (resetPassword env now db rq r) = Next) =
          validate env
            (usr\<lparr>password := body rq ''password'',
                 confirmPassword := body rq ''confirmPassword'',
                 passwordResetToken := None, passwordResetExpires := None\<rparr>))
 \<and> (req_user rq = Some ru \<and> findById_select_password db (uid ru) = Some cur
      \<and> correctPassword env (body rq ''passwordCurrent'') (password cur) \<longrightarrow>
      updatePassword env now db rq r =
        (case save env now True [P_password, P_confirmPassword, P_passwordChangedAt]
                (cur\<lparr>password := body rq ''password'',
                     confirmPassword := body rq ''passwordConfirm'',
                     passwordChangedAt := Some now\<rparr>) db of
           Inl e \<Rightarrow> \<lparr>response = r, flow = Threw e, store = db\<rparr>
         | Inr (saved, db') \<Rightarrow>
             \<lparr>response = createSendToken env now saved 201 r, flow = Next, store = db'\<rparr>)
      \<and> (flow (updatePassword env now db rq r) = Next) =
          validate env
            (cur\<lparr>password := body rq ''password'',
                 confirmPassword := body rq ''passwordConfirm'',
                 passwordChangedAt := Some now\<rparr>)
      \<and> (body rq ''passwordConfirm'' = None \<longrightarrow>
           (flow (updatePassword env now db rq r) = Next) =
             validate env
               (cur\<lparr>password := body rq ''password'', confirmPassword := None,
                    passwordChangedAt := Some now\<rparr>)))
 \<and> signup env now oid db (rq\<lparr>body := (body rq)(''passwordConfirm'' := x)\<rparr>) r =
      signup env now oid db rq r
 \<and> resetPassword env now db (rq\<lparr>body := (body rq)(''passwordConfirm'' := x)\<rparr>) r =
      resetPassword env now db rq r
 \<and> updatePassword env now db (rq\<lparr>body := (body rq)(''confirmPassword'' := x)\<rparr>) r =
      updatePassword env now db rq r"
proof (intro conjI impI)
  show "(flow (signup env now oid db rq r) = Threw ValidationError) =
     (\<not> validate env
        \<lparr>uid = oid, name = body rq ''name'', email = body rq ''email'', role = ''user'',
         password = body rq ''password'', confirmPassword = body rq ''confirmPassword'',
         passwordChangedAt = None, passwordResetToken = None, passwordResetExpires = None\<rparr>)"
    by (rule signup_validation)
next
  assume "flow (signup env now oid db rq r) = Next"
  then show "validate env
        \<lparr>uid = oid, name = body rq ''name'', email = body rq ''email'', role = ''user'',
         password = body rq ''password'', confirmPassword = body rq ''confirmPassword'',
         passwordChangedAt = None, passwordResetToken = None, passwordResetExpires = None\<rparr>"
    using signup_Next_validated by blast
next
  assume f: "findOne_reset db (sha256 env (params_token rq)) now = Some usr"
  show "resetPassword env now db rq r =
        (case save env now True
                [P_password, P_confirmPassword, P_passwordResetToken, P_passwordResetExpires]
                (usr\<lparr>password := body rq ''password'',
                     confirmPassword := body rq ''confirmPassword'',
                     passwordResetToken := None, passwordResetExpires := None\<rparr>) db of
           Inl e \<Rightarrow> \<lparr>response = r, flow = Threw e, store = db\<rparr>
         | Inr (saved, db') \<Rightarrow>
             \<lparr>response = createSendToken env now saved 201 r, flow = Next, store = db'\<rparr>)"
    by (rule resetPassword_hands_to_save [OF f])
  show "(flow (resetPassword env now db rq r) = Next) =
          validate env
            (usr\<lparr>password := body rq ''password'',
                 confirmPassword := body rq ''confirmPassword'',
                 passwordResetToken := None, passwordResetExpires := None\<rparr>)"
    by (simp only: resetPassword_hands_to_save [OF f] save_Next_iff)
next
  assume a: "req_user rq = Some ru \<and> findById_select_password db (uid ru) = Some cur
      \<and> correctPassword env (body rq ''passwordCurrent'') (password cur)"
  then have h: "updatePassword env now db rq r =
        (case save env now True [P_password, P_confirmPassword, P_passwordChangedAt]
                (cur\<lparr>password := body rq ''password'',
                     confirmPassword := body rq ''passwordConfirm'',
                     passwordChangedAt := Some now\<rparr>) db of
           Inl e \<Rightarrow> \<lparr>response = r, flow = Threw e, store = db\<rparr>
         | Inr (saved, db') \<Rightarrow>
             \<lparr>response = createSendToken env now saved 201 r, flow = Next, store = db'\<rparr>)"
    using updatePassword_hands_to_save [of rq ru db cur env now r] by blast
  show "updatePassword env now db rq r =
        (case save env now True [P_password, P_confirmPassword, P_passwordChangedAt]
                (cur\<lparr>password := body rq ''password'',
                     confirmPassword := body rq ''passwordConfirm'',
                     passwordChangedAt := Some now\<rparr>) db of
           Inl e \<Rightarrow> \<lparr>response = r, flow = Threw e, store = db\<rparr>
         | Inr (saved, db') \<Rightarrow>
             \<lparr>response = createSendToken env now saved 201 r, flow = Next, store = db'\<rparr>)"
    by (rule h)
  show v: "(flow (updatePassword env now db rq r) = Next) =
          validate env
            (cur\<lparr>password := body rq ''password'',
                 confirmPassword := body rq ''passwordConfirm'',
                 passwordChangedAt := Some now\<rparr>)"
    by (simp only: h save_Next_iff)
  assume "body rq ''passwordConfirm'' = None"
  with v show "(flow (updatePassword env now db rq r) = Next) =
             validate env
               (cur\<lparr>password := body rq ''password'', confirmPassword := None,
                    passwordChangedAt := Some now\<rparr>)"
    by simp
qed (rule other_field_not_read)+

theorem confirmation_field_names_witness:
  "flow (signup env0 1000 ''u2'' [user0] req_signup_other res0) = Threw ValidationError
 \<and> flow (signup env0 1000 ''u2'' [user0] req_signup res0) \<noteq> Threw ValidationError
 \<and> flow (resetPassword env0 1000 db_reset req_reset res0) = Next
 \<and> flow (resetPassword env0 1000 db_reset
           (req_reset\<lparr>body := [''password'' \<mapsto> ''new'', ''passwordConfirm'' \<mapsto> ''new'']\<rparr>) res0)
     \<noteq> Next
 \<and> body req_update ''passwordConfirm'' = None
 \<and> flow (updatePassword env0 1000 [user0] req_update res0) \<noteq> Next
 \<and> flow (updatePassword env0 1000 [user0]
           (req_update\<lparr>body := (body req_update)(''passwordConfirm'' \<mapsto> ''new'')\<rparr>) res0) = Next"
proof -
  let ?rs = "req_reset\<lparr>body := [''password'' \<mapsto> ''new'', ''passwordConfirm'' \<mapsto> ''new'']\<rparr>"
  let ?ru = "req_update\<lparr>body := (body req_update)(''passwordConfirm'' \<mapsto> ''new'')\<rparr>"
  let ?u = "deselect (hd db_reset)"
  note t = confirmation_field_names
  have s1: "flow (signup env0 1000 ''u2'' [user0] req_signup_other res0) = Threw ValidationError"
  proof -
    have "\<not> validate env0
        \<lparr>uid = ''u2'', name = body req_signup_other ''name'',
         email = body req_signup_other ''email'', role = ''user'',
         password = body req_signup_other ''password'',
         confirmPassword = body req_signup_other ''confirmPassword'',
         passwordChangedAt = None, passwordResetToken = None, passwordResetExpires = None\<rparr>"
      by (simp add: req_signup_other_def env0_def req0_def)
    with t [of env0 1000 "''u2''" "[user0]" req_signup_other res0 user0 user0 user0 None]
    show ?thesis by blast
  qed
  have s2: "flow (signup env0 1000 ''u2'' [user0] req_signup res0) \<noteq> Threw ValidationError"
  proof -
    have "validate env0
        \<lparr>uid = ''u2'', name = body req_signup ''name'',
         email = body req_signup ''email'', role = ''user'',
         password = body req_signup ''password'',
         confirmPassword = body req_signup ''confirmPassword'',
         passwordChangedAt = None, passwordResetToken = None, passwordResetExpires = None\<rparr>"
      by (simp add: req_signup_def env0_def req0_def)
    with t [of env0 1000 "''u2''" "[user0]" req_signup res0 user0 user0 user0 None]
    show ?thesis by blast
  qed
  have f1: "findOne_reset db_reset (sha256 env0 (params_token req_reset)) 1000 = Some ?u"
    by (simp add: db_reset_def req_reset_def eval_defs)
  have f2: "findOne_reset db_reset (sha256 env0 (params_token ?rs)) 1000 = Some ?u"
    by (simp add: db_reset_def req_reset_def eval_defs)
  have r1: "flow (resetPassword env0 1000 db_reset req_reset res0) = Next"
  proof -
    have "validate env0
            (?u\<lparr>password := body req_reset ''password'',
                confirmPassword := body req_reset ''confirmPassword'',
                passwordResetToken := None, passwordResetExpires := None\<rparr>)"
      by (simp add: req_reset_def env0_def req0_def)
    with f1 t [of env0 1000 "''u2''" db_reset req_reset res0 ?u user0 user0 None]
    show ?thesis by blast
  qed
  have r2: "flow (resetPassword env0 1000 db_reset ?rs res0) \<noteq> Next"
  proof -
    have "\<not> validate env0
            (?u\<lparr>password := body ?rs ''password'',
                confirmPassword := body ?rs ''confirmPassword'',
                passwordResetToken := None, passwordResetExpires := None\<rparr>)"
      by (simp add: req_reset_def env0_def req0_def)
    with f2 t [of env0 1000 "''u2''" db_reset ?rs res0 ?u user0 user0 None]
    show ?thesis by blast
  qed
  have c: "findById_select_password [user0] (uid (deselect user0)) = Some user0"
    by (simp add: eval_defs)
  have n: "body req_update ''passwordConfirm'' = None"
    by (simp add: req_update_def req0_def)
  have u1: "flow (updatePassword env0 1000 [user0] req_update res0) \<noteq> Next"
  proof -
    have a: "req_user req_update = Some (deselect user0)"
      "correctPassword env0 (body req_update ''passwordCurrent'') (password user0)"
      by (simp_all add: req_update_def eval_defs)
    have "\<not> validate env0
            (user0\<lparr>password := body req_update ''password'', confirmPassword := None,
                   passwordChangedAt := Some 1000\<rparr>)"
      by (simp add: req_update_def env0_def req0_def)
    with a c n t [of env0 1000 "''u2''" "[user0]" req_update res0 user0 "deselect user0" user0 None]
    show ?thesis by blast
  qed
  have u2: "flow (updatePassword env0 1000 [user0] ?ru res0) = Next"
  proof -
    have a: "req_user ?ru = Some (deselect user0)"
      "correctPassword env0 (body ?ru ''passwordCurrent'') (password user0)"
      by (simp_all add: req_update_def eval_defs)
    have "validate env0
            (user0\<lparr>password := body ?ru ''password'',
                   confirmPassword := body ?ru ''passwordConfirm'',
                   passwordChangedAt := Some 1000\<rparr>)"
      by (simp add: req_update_def env0_def req0_def)
    with a c t [of env0 1000 "''u2''" "[user0]" ?ru res0 user0 "deselect user0" user0 None]
    show ?thesis by blast
  qed
  from s1 s2 r1 r2 n u1 u2 show ?thesis by blast
qed

end
